theory Spec2Isabelle
  imports Complex_Main "HOL-Library.Word"
begin

section \<open>The Arduino primitives the two sketches call\<close>

text \<open>
  \<^verbatim>\<open>robotek.cpp\<close> (time-based motion control of two motors behind an L298N bridge)
  and \<^verbatim>\<open>sonar.cpp\<close> (HC-SR04 ranging) are Arduino sketches for the ESP32. Both
  are built on functions of the Arduino core, which are not part of the repository. They
  are modelled here from the Arduino language reference and the ESP32 core, on which
  \<^verbatim>\<open>int\<close>, \<^verbatim>\<open>long\<close> and \<^verbatim>\<open>unsigned long\<close> are 32 bits wide
  and \<^verbatim>\<open>float\<close> is IEEE 754 binary32.
\<close>

subsection \<open>Integer helpers: \<^verbatim>\<open>constrain\<close> and \<^verbatim>\<open>map\<close>\<close>

text \<open>
  \<^verbatim>\<open>#define constrain(amt,low,high) ((amt)<(low)?(low):((amt)>(high)?(high):(amt)))\<close>
\<close>

definition constrain :: "int \<Rightarrow> int \<Rightarrow> int \<Rightarrow> int" where
  "constrain amt low high = (if amt < low then low else if high < amt then high else amt)"

text \<open>The quotient of C and C++ integer division: truncated towards zero.\<close>

definition c_div :: "int \<Rightarrow> int \<Rightarrow> int" where
  "c_div a b = sgn a * sgn b * (\<bar>a\<bar> div \<bar>b\<bar>)"

text \<open>
  \<^verbatim>\<open>long map(long x, long in_min, long in_max, long out_min, long out_max)\<close> of the
  Arduino core. The language reference gives its body as
  \<^verbatim>\<open>return (x - in_min) * (out_max - out_min) / (in_max - in_min) + out_min;\<close>
  and states that it ``uses integer math so will not generate fractions'' and that
  ``fractional remainders are truncated, and are not rounded or averaged''. The ESP32 core
  computes the same value and returns \<open>-1\<close> for an empty input range:
  \<^verbatim>\<open>
  const long run = in_max - in_min;
  if(run == 0){ log_e("map(): Invalid input range, min == max"); return -1; }
  const long rise = out_max - out_min;
  const long delta = x - in_min;
  return (delta * rise) / run + out_min;
  \<close>
  The values are \<^verbatim>\<open>long\<close>; they are modelled as mathematical integers, and
  \<open>in_long_range\<close> states what it takes for a value to be one.
\<close>

definition map_long :: "int \<Rightarrow> int \<Rightarrow> int \<Rightarrow> int \<Rightarrow> int \<Rightarrow> int" where
  "map_long x in_min in_max out_min out_max =
     (let run = in_max - in_min in
      if run = 0 then - 1
      else let rise = out_max - out_min; delta = x - in_min
           in c_div (delta * rise) run + out_min)"

definition in_long_range :: "int \<Rightarrow> bool" where
  "in_long_range v \<longleftrightarrow> - (2 ^ 31) \<le> v \<and> v < 2 ^ 31"

subsection \<open>Single-precision floating point\<close>

text \<open>
  A finite \<^verbatim>\<open>float\<close> is modelled by the rational number it denotes. An arithmetic
  operation on floats is the exact operation followed by rounding to the nearest binary32
  value, ties to the even significand (\<open>f32_rnd\<close>): the significand has 24 bits, and
  below the exponent \<open>-126\<close> the spacing stays \<open>2 powi - 149\<close> (subnormal numbers).
  Infinities and NaN are not modelled: \<open>f32_rnd\<close> lets the exponent grow beyond 127,
  where the hardware gives an infinity; in the sketches such a value only ever reaches a
  conversion to \<^verbatim>\<open>unsigned long\<close>, whose range it exceeds either way.
\<close>

text \<open>Round to the nearest integer, ties to even.\<close>

definition rne :: "rat \<Rightarrow> int" where
  "rne x = (let f = \<lfloor>x\<rfloor>; r = x - of_int f in
     if r < 1 / 2 then f
     else if 1 / 2 < r then f + 1
     else if even f then f else f + 1)"

text \<open>The measure under which \<open>ilog2\<close> terminates.\<close>

definition ilog2_size :: "rat \<Rightarrow> nat" where
  "ilog2_size x = (if 1 \<le> x then nat \<lfloor>x\<rfloor> else nat \<lfloor>1 / x\<rfloor> + 1)"

text \<open>The binary exponent of a positive rational: \<open>\<lfloor>log\<^sub>2 x\<rfloor>\<close>.\<close>

function ilog2 :: "rat \<Rightarrow> int" where
  "ilog2 x = (if x \<le> 0 then 0
     else if 2 \<le> x then ilog2 (x / 2) + 1
     else if x < 1 then ilog2 (x * 2) - 1
     else 0)"
  by pat_completeness auto
termination
proof (relation "measure ilog2_size")
  show "wf (measure ilog2_size)" by simp
next
  fix x :: rat
  assume a: "2 \<le> x"
  have "x / 2 \<le> x - 1" using a by simp
  then have "\<lfloor>x / 2\<rfloor> \<le> \<lfloor>x - 1\<rfloor>" by (rule floor_mono)
  then have "\<lfloor>x / 2\<rfloor> < \<lfloor>x\<rfloor>" by simp
  moreover have "0 < \<lfloor>x\<rfloor>" using a by simp
  ultimately show "(x / 2, x) \<in> measure ilog2_size"
    using a by (simp add: ilog2_size_def)
next
  fix x :: rat
  assume a: "\<not> x \<le> 0" "x < 1"
  have one: "1 \<le> \<lfloor>1 / x\<rfloor>" using a by (simp add: le_floor_iff)
  show "(x * 2, x) \<in> measure ilog2_size"
  proof (cases "1 \<le> x * 2")
    case True
    have "x * 2 < 2" using a by simp
    then have "\<lfloor>x * 2\<rfloor> < 2" by (simp add: floor_less_iff)
    then have "nat \<lfloor>x * 2\<rfloor> < nat \<lfloor>1 / x\<rfloor> + 1" using one by linarith
    then show ?thesis using True a by (simp add: ilog2_size_def)
  next
    case False
    then have "2 \<le> 1 / x" using a by (simp add: field_simps)
    then have "1 / x / 2 \<le> 1 / x - 1" by simp
    then have "\<lfloor>1 / x / 2\<rfloor> \<le> \<lfloor>1 / x - 1\<rfloor>" by (rule floor_mono)
    then have "\<lfloor>1 / (x * 2)\<rfloor> < \<lfloor>1 / x\<rfloor>" by (simp add: field_simps)
    then have "nat \<lfloor>1 / (x * 2)\<rfloor> < nat \<lfloor>1 / x\<rfloor>" using one by linarith
    then show ?thesis using False a by (simp add: ilog2_size_def)
  qed
qed

declare ilog2.simps [simp del]

definition f32_rnd :: "rat \<Rightarrow> rat" where
  "f32_rnd x = (if x = 0 then 0 else
     let e = max (ilog2 \<bar>x\<bar>) (- 126); u = 2 powi (e - 23)
     in of_int (rne (x / u)) * u)"

definition f32_mul :: "rat \<Rightarrow> rat \<Rightarrow> rat" where
  "f32_mul x y = f32_rnd (x * y)"

text \<open>Division by a nonzero float (the sketches divide by \<^verbatim>\<open>2.0f\<close> only).\<close>

definition f32_div :: "rat \<Rightarrow> rat \<Rightarrow> rat" where
  "f32_div x y = f32_rnd (x / y)"

text \<open>The conversion of a \<^verbatim>\<open>long\<close> to \<^verbatim>\<open>float\<close>.\<close>

definition f32_of_long :: "int \<Rightarrow> rat" where
  "f32_of_long n = f32_rnd (of_int n)"

text \<open>
  \<^verbatim>\<open>round\<close> of the C library (the ESP32 core's \<^verbatim>\<open>Arduino.h\<close> has
  \<^verbatim>\<open>using ::round;\<close>): the nearest integer, halfway cases away from zero. Its
  \<^verbatim>\<open>float\<close> argument is promoted to \<^verbatim>\<open>double\<close> without loss.
\<close>

definition c_round :: "rat \<Rightarrow> int" where
  "c_round x = (if 0 \<le> x then \<lfloor>x + 1 / 2\<rfloor> else - \<lfloor>- x + 1 / 2\<rfloor>)"

text \<open>
  The cast \<^verbatim>\<open>(unsigned long)\<close> of an integral floating-point value. Inside
  \<open>0 \<dots> 2\<^sup>3\<^sup>2 - 1\<close> it is the value itself. Outside, C++ leaves the conversion
  undefined; the model takes the 32-bit pattern the target produces there as a parameter
  \<open>oor\<close> (``out of range''), about which nothing is assumed.
\<close>

definition to_unsigned_long :: "(int \<Rightarrow> 32 word) \<Rightarrow> int \<Rightarrow> 32 word" where
  "to_unsigned_long oor r = (if 0 \<le> r \<and> r < 2 ^ 32 then word_of_int r else oor r)"

text \<open>One target for concrete runs: a conversion that saturates.\<close>

definition saturating_cast :: "int \<Rightarrow> 32 word" where
  "saturating_cast r = (if r < 0 then 0 else 4294967295)"

section \<open>\<^verbatim>\<open>robotek.cpp\<close>: the motion controller\<close>

subsection \<open>Program state\<close>

datatype level = LOW | HIGH

datatype pin = IN1 | IN2 | IN3 | IN4

datatype channel = PWM_CHANNEL_LEFT | PWM_CHANNEL_RIGHT

text \<open>What the sketch hands to \<^verbatim>\<open>Serial.print\<close> and \<^verbatim>\<open>Serial.println\<close>, unformatted.\<close>

datatype serial_item =
    Print_str string
  | Print_float rat
  | Print_ulong "32 word"
  | Print_int int
  | Println_str string

text \<open>
  The state the sketch reads and writes: its two global calibration variables
  (\<^verbatim>\<open>float ms_per_cm = 80.0; float ms_per_degree = 8.4;\<close>), the levels of the four
  direction lines of the L298N, the duty values of the two PWM channels behind
  \<^verbatim>\<open>ENA\<close> and \<^verbatim>\<open>ENB\<close>, the millisecond clock that \<^verbatim>\<open>millis()\<close> reads,
  and the serial output so far.
\<close>

record hw =
  ms_per_cm :: rat
  ms_per_degree :: rat
  in1 :: level
  in2 :: level
  in3 :: level
  in4 :: level
  duty_left :: int
  duty_right :: int
  millis :: "32 word"
  serial :: "serial_item list"

definition digitalWrite :: "pin \<Rightarrow> level \<Rightarrow> hw \<Rightarrow> hw" where
  "digitalWrite p v h =
     (case p of IN1 \<Rightarrow> h\<lparr>in1 := v\<rparr> | IN2 \<Rightarrow> h\<lparr>in2 := v\<rparr>
              | IN3 \<Rightarrow> h\<lparr>in3 := v\<rparr> | IN4 \<Rightarrow> h\<lparr>in4 := v\<rparr>)"

definition ledcWrite :: "channel \<Rightarrow> int \<Rightarrow> hw \<Rightarrow> hw" where
  "ledcWrite c duty h =
     (case c of PWM_CHANNEL_LEFT \<Rightarrow> h\<lparr>duty_left := duty\<rparr>
              | PWM_CHANNEL_RIGHT \<Rightarrow> h\<lparr>duty_right := duty\<rparr>)"

definition Serial_print :: "serial_item \<Rightarrow> hw \<Rightarrow> hw" where
  "Serial_print x h = h\<lparr>serial := serial h @ [x]\<rparr>"

text \<open>
  \<^verbatim>\<open>delay(ms)\<close> on an ideal clock: exactly \<open>ms\<close> milliseconds pass, and no time
  passes in any other statement. The clock is an \<^verbatim>\<open>unsigned long\<close> and wraps.
\<close>

definition delay :: "32 word \<Rightarrow> hw \<Rightarrow> hw" where
  "delay ms h = h\<lparr>millis := millis h + ms\<rparr>"

text \<open>A sequence of statements, run in order.\<close>

definition block :: "(hw \<Rightarrow> hw) list \<Rightarrow> hw \<Rightarrow> hw" where
  "block stmts h = fold (\<lambda>stmt. stmt) stmts h"

subsection \<open>\<^verbatim>\<open>speedPercentToPwm\<close>\<close>

text \<open>
  \<^verbatim>\<open>
  int speedPercentToPwm(int speedPercent) {
    speedPercent = constrain(speedPercent, 0, 100);
    return map(speedPercent, 0, 100, 0, 255);
  }
  \<close>
\<close>

definition speedPercentToPwm :: "int \<Rightarrow> int" where
  "speedPercentToPwm speedPercent = map_long (constrain speedPercent 0 100) 0 100 0 255"

text \<open>
  The duty the specification names: \<open>round(percent * 255 / 100)\<close> of the clamped
  percentage. It is defined from the specification's sentence, for comparison with
  \<open>speedPercentToPwm\<close>.
\<close>

definition spec_rounded_duty :: "int \<Rightarrow> int" where
  "spec_rounded_duty speedPercent = c_round (of_int (constrain speedPercent 0 100) * 255 / 100)"

subsection \<open>\<^verbatim>\<open>stopMotors\<close>\<close>

text \<open>
  \<^verbatim>\<open>
  void stopMotors() {
    ledcWrite(PWM_CHANNEL_LEFT, 0);
    ledcWrite(PWM_CHANNEL_RIGHT, 0);
    digitalWrite(IN1, LOW);
    digitalWrite(IN2, LOW);
    digitalWrite(IN3, LOW);
    digitalWrite(IN4, LOW);
  }
  \<close>
\<close>

definition stopMotors :: "hw \<Rightarrow> hw" where
  "stopMotors = block
     [ledcWrite PWM_CHANNEL_LEFT 0,
      ledcWrite PWM_CHANNEL_RIGHT 0,
      digitalWrite IN1 LOW,
      digitalWrite IN2 LOW,
      digitalWrite IN3 LOW,
      digitalWrite IN4 LOW]"

subsection \<open>The timed wait\<close>

text \<open>
  Both motion commands hold the motors for the computed time with the same loop:
  \<^verbatim>\<open>
  unsigned long start = millis();
  while (millis() - start < runTimeMs) {
    delay(5);
  }
  \<close>
  The subtraction and the comparison are those of \<^verbatim>\<open>unsigned long\<close>. A loop that
  never leaves is the value \<open>None\<close>.
\<close>

partial_function (option) wait_loop :: "32 word \<Rightarrow> 32 word \<Rightarrow> hw \<Rightarrow> hw option" where
  "wait_loop start runTimeMs h =
     (if millis h - start < runTimeMs then wait_loop start runTimeMs (delay 5 h) else Some h)"

definition busy_wait :: "32 word \<Rightarrow> hw \<Rightarrow> hw option" where
  "busy_wait runTimeMs h = (let start = millis h in wait_loop start runTimeMs h)"

subsection \<open>\<^verbatim>\<open>driveForward\<close>\<close>

text \<open>
  \<^verbatim>\<open>
  void driveForward(float distance_cm, int speed_percent) {
    if (distance_cm <= 0.0 || speed_percent <= 0) {
      return;
    }
    unsigned long runTimeMs = (unsigned long) round(distance_cm * ms_per_cm);
    Serial.print("Requested distance (cm): ");
    Serial.print(distance_cm);
    Serial.print("  -> run time (ms): ");
    Serial.print(runTimeMs);
    Serial.print("  speed: ");
    Serial.print(speed_percent);
    Serial.println("%");
    digitalWrite(IN1, HIGH);
    digitalWrite(IN2, LOW);
    digitalWrite(IN3, HIGH);
    digitalWrite(IN4, LOW);
    int pwmVal = speedPercentToPwm(speed_percent);
    ledcWrite(PWM_CHANNEL_LEFT, pwmVal);
    ledcWrite(PWM_CHANNEL_RIGHT, pwmVal);
    unsigned long start = millis();
    while (millis() - start < runTimeMs) {
      delay(5);
    }
    stopMotors();
  }
  \<close>
  The function is split where the motors start to run: \<open>driveForward_runTimeMs\<close> is
  the computed duration, \<open>driveForward_start\<close> the statements from the first
  \<^verbatim>\<open>Serial.print\<close> to the second \<^verbatim>\<open>ledcWrite\<close>, whose result is the state the
  wait loop is entered in.
\<close>

definition driveForward_runTimeMs :: "(int \<Rightarrow> 32 word) \<Rightarrow> hw \<Rightarrow> rat \<Rightarrow> 32 word" where
  "driveForward_runTimeMs oor h distance_cm =
     to_unsigned_long oor (c_round (f32_mul distance_cm (ms_per_cm h)))"

definition driveForward_start :: "rat \<Rightarrow> int \<Rightarrow> 32 word \<Rightarrow> hw \<Rightarrow> hw" where
  "driveForward_start distance_cm speed_percent runTimeMs =
     (let pwmVal = speedPercentToPwm speed_percent in block
       [Serial_print (Print_str ''Requested distance (cm): ''),
        Serial_print (Print_float distance_cm),
        Serial_print (Print_str ''  -> run time (ms): ''),
        Serial_print (Print_ulong runTimeMs),
        Serial_print (Print_str ''  speed: ''),
        Serial_print (Print_int speed_percent),
        Serial_print (Println_str ''%''),
        digitalWrite IN1 HIGH,
        digitalWrite IN2 LOW,
        digitalWrite IN3 HIGH,
        digitalWrite IN4 LOW,
        ledcWrite PWM_CHANNEL_LEFT pwmVal,
        ledcWrite PWM_CHANNEL_RIGHT pwmVal])"

definition driveForward :: "(int \<Rightarrow> 32 word) \<Rightarrow> rat \<Rightarrow> int \<Rightarrow> hw \<Rightarrow> hw option" where
  "driveForward oor distance_cm speed_percent h =
     (if distance_cm \<le> 0 \<or> speed_percent \<le> 0 then Some h
      else let runTimeMs = driveForward_runTimeMs oor h distance_cm;
               h1 = driveForward_start distance_cm speed_percent runTimeMs h
           in map_option stopMotors (busy_wait runTimeMs h1))"

subsection \<open>\<^verbatim>\<open>rotate\<close>\<close>

text \<open>
  \<^verbatim>\<open>
  void rotate(float angle_deg, int speed_percent) {
    if (angle_deg == 0 || speed_percent <= 0) {
      return;
    }
    unsigned long runTimeMs = (unsigned long) round(abs(angle_deg) * ms_per_degree);
    Serial.print("Rotating ");
    Serial.print(angle_deg);
    Serial.print(" degrees -> run time (ms): ");
    Serial.print(runTimeMs);
    Serial.print("  speed: ");
    Serial.print(speed_percent);
    Serial.println("%");
    int pwmVal = speedPercentToPwm(speed_percent);
    if (angle_deg > 0) {
      digitalWrite(IN1, HIGH);
      digitalWrite(IN2, LOW);
      digitalWrite(IN3, LOW);
      digitalWrite(IN4, HIGH);
    } else {
      digitalWrite(IN1, LOW);
      digitalWrite(IN2, HIGH);
      digitalWrite(IN3, HIGH);
      digitalWrite(IN4, LOW);
    }
    ledcWrite(PWM_CHANNEL_LEFT, pwmVal);
    ledcWrite(PWM_CHANNEL_RIGHT, pwmVal);
    unsigned long start = millis();
    while (millis() - start < runTimeMs) {
      delay(5);
    }
    stopMotors();
  }
  \<close>
  \<^verbatim>\<open>abs\<close> of a float is exact. The split is that of \<open>driveForward\<close>. The
  function is named \<open>rotate_deg\<close> here, \<open>rotate\<close> being a function on lists.
\<close>

definition rotate_runTimeMs :: "(int \<Rightarrow> 32 word) \<Rightarrow> hw \<Rightarrow> rat \<Rightarrow> 32 word" where
  "rotate_runTimeMs oor h angle_deg =
     to_unsigned_long oor (c_round (f32_mul \<bar>angle_deg\<bar> (ms_per_degree h)))"

definition rotate_start :: "rat \<Rightarrow> int \<Rightarrow> 32 word \<Rightarrow> hw \<Rightarrow> hw" where
  "rotate_start angle_deg speed_percent runTimeMs =
     (let pwmVal = speedPercentToPwm speed_percent in block
       ([Serial_print (Print_str ''Rotating ''),
         Serial_print (Print_float angle_deg),
         Serial_print (Print_str '' degrees -> run time (ms): ''),
         Serial_print (Print_ulong runTimeMs),
         Serial_print (Print_str ''  speed: ''),
         Serial_print (Print_int speed_percent),
         Serial_print (Println_str ''%'')]
        @ (if 0 < angle_deg
           then [digitalWrite IN1 HIGH,
                 digitalWrite IN2 LOW,
                 digitalWrite IN3 LOW,
                 digitalWrite IN4 HIGH]
           else [digitalWrite IN1 LOW,
                 digitalWrite IN2 HIGH,
                 digitalWrite IN3 HIGH,
                 digitalWrite IN4 LOW])
        @ [ledcWrite PWM_CHANNEL_LEFT pwmVal,
           ledcWrite PWM_CHANNEL_RIGHT pwmVal]))"

definition rotate_deg :: "(int \<Rightarrow> 32 word) \<Rightarrow> rat \<Rightarrow> int \<Rightarrow> hw \<Rightarrow> hw option" where
  "rotate_deg oor angle_deg speed_percent h =
     (if angle_deg = 0 \<or> speed_percent \<le> 0 then Some h
      else let runTimeMs = rotate_runTimeMs oor h angle_deg;
               h1 = rotate_start angle_deg speed_percent runTimeMs h
           in map_option stopMotors (busy_wait runTimeMs h1))"

subsection \<open>Start-up and callers\<close>

text \<open>
  \<^verbatim>\<open>setup()\<close> of \<^verbatim>\<open>robotek.cpp\<close> opens the serial port, prints a line,
  configures the four direction pins as outputs and the two PWM channels (2 kHz, 8 bits),
  none of which writes a level or a duty, and ends with \<^verbatim>\<open>stopMotors()\<close>.
\<close>

definition robotek_setup :: "hw \<Rightarrow> hw" where
  "robotek_setup = block [Serial_print (Println_str ''Drive test starting...''), stopMotors]"

text \<open>
  A state at reset, for concrete runs: the globals hold their initialisers
  (\<^verbatim>\<open>8.4\<close> converted to \<^verbatim>\<open>float\<close>), the outputs are taken to be low.
\<close>

definition power_on :: hw where
  "power_on = \<lparr>ms_per_cm = 80, ms_per_degree = f32_rnd (42 / 5),
     in1 = LOW, in2 = LOW, in3 = LOW, in4 = LOW, duty_left = 0, duty_right = 0,
     millis = 0, serial = []\<rparr>"

text \<open>
  The motion commands are called after \<^verbatim>\<open>setup()\<close>, one after the other, with
  \<^verbatim>\<open>delay\<close> in between (as \<^verbatim>\<open>loop()\<close> does). A caller is a list of such calls.
\<close>

datatype command =
    DriveForward rat int
  | Rotate rat int
  | StopMotors
  | Delay "32 word"

fun exec :: "(int \<Rightarrow> 32 word) \<Rightarrow> command \<Rightarrow> hw \<Rightarrow> hw option" where
  "exec oor (DriveForward distance_cm speed_percent) h = driveForward oor distance_cm speed_percent h"
| "exec oor (Rotate angle_deg speed_percent) h = rotate_deg oor angle_deg speed_percent h"
| "exec oor StopMotors h = Some (stopMotors h)"
| "exec oor (Delay ms) h = Some (delay ms h)"

fun run_commands :: "(int \<Rightarrow> 32 word) \<Rightarrow> command list \<Rightarrow> hw \<Rightarrow> hw option" where
  "run_commands oor [] h = Some h"
| "run_commands oor (c # cs) h =
     (case exec oor c h of None \<Rightarrow> None | Some h' \<Rightarrow> run_commands oor cs h')"

text \<open>Both duties 0 and all four direction lines low: both motors coast.\<close>

definition stopped :: "hw \<Rightarrow> bool" where
  "stopped h \<longleftrightarrow> duty_left h = 0 \<and> duty_right h = 0
     \<and> in1 h = LOW \<and> in2 h = LOW \<and> in3 h = LOW \<and> in4 h = LOW"


section \<open>\<^verbatim>\<open>sonar.cpp\<close>: the ranging utility\<close>

text \<open>
  The sketch drives the trigger line of an HC-SR04 and times the echo with
  \<^verbatim>\<open>pulseIn(pin, state, timeout)\<close> of the Arduino core, which returns the length of
  the pulse in microseconds, or 0 if no complete pulse was received within the timeout
  (here \<^verbatim>\<open>30000UL\<close> microseconds, 30 ms). What \<^verbatim>\<open>pulseIn\<close> returns is up to the
  world in front of the sensor: it is a parameter of the model.
\<close>

datatype sonar_pin = TRIG_PIN | ECHO_PIN

text \<open>
  The level of the trigger line, the microseconds spent in \<^verbatim>\<open>delayMicroseconds\<close> and
  \<^verbatim>\<open>delay\<close>, and the serial output.
\<close>

record sonar_hw =
  trig :: level
  waited_us :: nat
  reported :: "serial_item list"

text \<open>
  \<^verbatim>\<open>
  float measureDistanceCm() {
    digitalWrite(TRIG_PIN, LOW);
    delayMicroseconds(2);
    digitalWrite(TRIG_PIN, HIGH);
    delayMicroseconds(10);
    digitalWrite(TRIG_PIN, LOW);
    long duration = pulseIn(ECHO_PIN, HIGH, 30000UL);
    if (duration == 0) {
      return -1.0;
    }
    float distance_cm = (duration * 0.0343f) / 2.0f;
    return distance_cm;
  }
  \<close>
  The \<^verbatim>\<open>unsigned long\<close> that \<^verbatim>\<open>pulseIn\<close> returns is stored in a \<^verbatim>\<open>long\<close>
  (\<open>sint\<close>), converted to \<^verbatim>\<open>float\<close> for the product with \<^verbatim>\<open>0.0343f\<close>.
\<close>

definition measureDistanceCm ::
  "(sonar_pin \<Rightarrow> level \<Rightarrow> 32 word \<Rightarrow> 32 word) \<Rightarrow> sonar_hw \<Rightarrow> rat \<times> sonar_hw" where
  "measureDistanceCm pulseIn h =
     (let h1 = h\<lparr>trig := LOW\<rparr>;
          h2 = h1\<lparr>waited_us := waited_us h1 + 2\<rparr>;
          h3 = h2\<lparr>trig := HIGH\<rparr>;
          h4 = h3\<lparr>waited_us := waited_us h3 + 10\<rparr>;
          h5 = h4\<lparr>trig := LOW\<rparr>;
          duration = sint (pulseIn ECHO_PIN HIGH 30000)
      in if duration = 0 then (- 1, h5)
         else (f32_div (f32_mul (f32_of_long duration) (f32_rnd (343 / 10000))) 2, h5))"

text \<open>
  \<^verbatim>\<open>
  void loop() {
    float d = measureDistanceCm();
    if (d < 0) {
      Serial.println("No echo detected.");
    } else {
      Serial.print("Distance: ");
      Serial.print(d);
      Serial.println(" cm");
    }
    delay(200);
  }
  \<close>
\<close>

definition sonar_loop ::
  "(sonar_pin \<Rightarrow> level \<Rightarrow> 32 word \<Rightarrow> 32 word) \<Rightarrow> sonar_hw \<Rightarrow> sonar_hw" where
  "sonar_loop pulseIn h =
     (let (d, h1) = measureDistanceCm pulseIn h;
          h2 = (if d < 0
                then h1\<lparr>reported := reported h1 @ [Println_str ''No echo detected.'']\<rparr>
                else h1\<lparr>reported := reported h1 @
                       [Print_str ''Distance: '', Print_float d, Println_str '' cm'']\<rparr>)
      in h2\<lparr>waited_us := waited_us h2 + 200 * 1000\<rparr>)"

text \<open>
  For concrete runs: a world in which the echo pulse lasts \<open>w\<close> microseconds (no echo
  when \<open>w\<close> is 0 or beyond the timeout), and a sensor at rest.
\<close>

definition echo_of :: "32 word \<Rightarrow> sonar_pin \<Rightarrow> level \<Rightarrow> 32 word \<Rightarrow> 32 word" where
  "echo_of w p v timeout = (if timeout < w then 0 else w)"

definition sonar_idle :: sonar_hw where
  "sonar_idle = \<lparr>trig = LOW, waited_us = 0, reported = []\<rparr>"

section \<open>Properties of \<^verbatim>\<open>speedPercentToPwm\<close>\<close>

lemma constrain_bounds: "low \<le> high \<Longrightarrow> low \<le> constrain amt low high \<and> constrain amt low high \<le> high"
  by (simp add: constrain_def)

lemma constrain_percent: "constrain s 0 100 = max 0 (min 100 s)"
  by (simp add: constrain_def)

lemma c_div_nonneg: "0 \<le> a \<Longrightarrow> 0 < b \<Longrightarrow> c_div a b = a div b"
  by (cases "a = 0") (simp_all add: c_div_def)

lemma speedPercentToPwm_div: "speedPercentToPwm s = (constrain s 0 100 * 255) div 100"
proof -
  have "0 \<le> constrain s 0 100 * 255"
    using constrain_bounds [of 0 100 s] by simp
  then show ?thesis
    by (simp add: speedPercentToPwm_def map_long_def c_div_nonneg)
qed

lemma speedPercentToPwm_range: "0 \<le> speedPercentToPwm s \<and> speedPercentToPwm s \<le> 255"
proof -
  have b: "0 \<le> constrain s 0 100 \<and> constrain s 0 100 \<le> 100"
    using constrain_bounds [of 0 100 s] by simp
  then have "constrain s 0 100 * 255 \<le> 100 * 255" by simp
  then have "(constrain s 0 100 * 255) div 100 \<le> (100 * 255) div 100"
    by (intro zdiv_mono1) simp_all
  moreover have "0 \<le> (constrain s 0 100 * 255) div 100"
    using b by (simp add: pos_imp_zdiv_nonneg_iff)
  ultimately show ?thesis by (simp add: speedPercentToPwm_div)
qed

text \<open>No step of \<open>speedPercentToPwm\<close> leaves the range of \<^verbatim>\<open>long\<close>.\<close>

lemma speedPercentToPwm_no_overflow:
  "in_long_range (constrain s 0 100 * 255) \<and> in_long_range (speedPercentToPwm s)"
  using constrain_bounds [of 0 100 s] speedPercentToPwm_range [of s]
  by (simp add: in_long_range_def)

lemma floor_rat_numeral_div: "\<lfloor>(numeral a / numeral b :: rat)\<rfloor> = numeral a div numeral b"
  using floor_divide_of_int_eq [of "numeral a" "numeral b", where ?'a = rat] by simp

text \<open>
  C1, as stated: \<open>speedPercentToPwm\<close> returns the scaled duty rounded to the nearest
  integer. It does not: at 1 percent the exact duty is 2.55, which rounds to 3, and
  \<^verbatim>\<open>map\<close> truncates it to 2.
\<close>

theorem speedPercentToPwm_not_rounded:
  "speedPercentToPwm 1 = 2 \<and> spec_rounded_duty 1 = 3"
  by (simp add: speedPercentToPwm_div spec_rounded_duty_def constrain_def c_round_def
      floor_rat_numeral_div)

text \<open>
  C1, amended: for every \<^verbatim>\<open>int\<close> argument, \<open>speedPercentToPwm\<close> clamps it to
  \<open>[0, 100]\<close> and returns \<open>percent * 255 / 100\<close> with the fraction cut off (rounded
  down), a value between 0 and 255.
\<close>

theorem speedPercentToPwm_truncates:
  "speedPercentToPwm s = \<lfloor>(of_int (max 0 (min 100 s)) * 255 / 100 :: rat)\<rfloor>
   \<and> 0 \<le> speedPercentToPwm s \<and> speedPercentToPwm s \<le> 255"
proof -
  have "\<lfloor>(of_int (max 0 (min 100 s)) * 255 / 100 :: rat)\<rfloor> = (max 0 (min 100 s) * 255) div 100"
    using floor_divide_of_int_eq [of "max 0 (min 100 s) * 255" 100, where ?'a = rat] by simp
  then show ?thesis
    using speedPercentToPwm_range [of s] by (simp add: speedPercentToPwm_div constrain_percent)
qed

text \<open>
  C7: every negative percentage gives the duty of 0 percent, and every percentage above
  100 the duty of 100 percent.
\<close>

theorem speedPercentToPwm_clamps:
  "(s < 0 \<longrightarrow> speedPercentToPwm s = speedPercentToPwm 0)
   \<and> (100 < s \<longrightarrow> speedPercentToPwm s = speedPercentToPwm 100)"
  by (simp add: speedPercentToPwm_def constrain_def)

theorem speedPercentToPwm_clamps_witness:
  "(- 7 < (0::int) \<and> speedPercentToPwm (- 7) = speedPercentToPwm 0 \<and> speedPercentToPwm 0 = 0)
   \<and> ((100::int) < 250 \<and> speedPercentToPwm 250 = speedPercentToPwm 100
        \<and> speedPercentToPwm 100 = 255)"
  using speedPercentToPwm_clamps [of "- 7"] speedPercentToPwm_clamps [of 250]
  by (simp add: speedPercentToPwm_div constrain_def)

section \<open>Properties of the motion controller\<close>

subsection \<open>The wait loop returns\<close>

text \<open>
  Entered with nothing elapsed, the loop reads elapsed times 0, 5, 10, \<dots> and leaves
  at the first multiple of 5 that is not below \<open>runTimeMs\<close>. It leaves for every
  \<open>runTimeMs\<close>: the largest one, \<open>2\<^sup>3\<^sup>2 - 1\<close>, is itself a multiple of 5, so the
  elapsed time cannot wrap around before it is reached.
\<close>

lemma wait_loop_steps:
  assumes "unat (millis h - start) = 5 * k"
    and "k \<le> (unat rt + 4) div 5"
  shows "wait_loop start rt h = Some (h\<lparr>millis := start + word_of_nat (5 * ((unat rt + 4) div 5))\<rparr>)"
  using assms
proof (induction "(unat rt + 4) div 5 - k" arbitrary: k h)
  case 0
  then have k: "k = (unat rt + 4) div 5" by simp
  have "unat rt \<le> 5 * k" unfolding k by linarith
  then have "\<not> millis h - start < rt"
    using 0(2) by (simp add: word_less_nat_alt)
  moreover have "word_of_nat (unat (millis h - start)) = millis h - start"
    by simp
  then have "millis h = start + word_of_nat (5 * k)"
    unfolding 0(2) by (simp add: algebra_simps)
  ultimately show ?case
    unfolding k by (subst wait_loop.simps) simp
next
  case (Suc n)
  then have klt: "k < (unat rt + 4) div 5" by simp
  then have lt: "5 * k < unat rt" by linarith
  have "unat rt < 2 ^ 32" using unsigned_less [of rt, where ?'a = nat] by simp
  then have nowrap: "5 * k + 5 < 2 ^ 32" using lt by simp presburger
  have cond: "millis h - start < rt"
    using lt Suc(3) by (simp add: word_less_nat_alt)
  have "unat (millis h - start + 5) = unat (millis h - start) + unat (5 :: 32 word)"
    using nowrap Suc(3) by (subst unat_add_lem [THEN iffD1]) simp_all
  then have step: "unat (millis (delay 5 h) - start) = 5 * Suc k"
    using Suc(3) by (simp add: delay_def add_diff_eq [symmetric] diff_add_eq)
  have "wait_loop start rt (delay 5 h)
      = Some ((delay 5 h)\<lparr>millis := start + word_of_nat (5 * ((unat rt + 4) div 5))\<rparr>)"
    using Suc(1) [of "Suc k" "delay 5 h"] Suc(2) step klt by simp
  then show ?case
    using cond by (subst wait_loop.simps) (simp add: delay_def)
qed

lemma busy_wait_eq:
  "busy_wait rt h = Some (h\<lparr>millis := millis h + word_of_nat (5 * ((unat rt + 4) div 5))\<rparr>)"
  using wait_loop_steps [of h "millis h" 0 rt] by (simp add: busy_wait_def)



subsection \<open>What the statement sequences do to the state\<close>

lemma stopMotors_eq:
  "stopMotors h = h\<lparr>duty_left := 0, duty_right := 0, in1 := LOW, in2 := LOW, in3 := LOW, in4 := LOW\<rparr>"
  by (simp add: stopMotors_def block_def ledcWrite_def digitalWrite_def)

lemma stopped_stopMotors: "stopped (stopMotors h)"
  by (simp add: stopMotors_eq stopped_def)


lemma rotate_start_eq:
  "rotate_start a s rt h = h\<lparr>serial := serial h @
       [Print_str ''Rotating '', Print_float a,
        Print_str '' degrees -> run time (ms): '', Print_ulong rt,
        Print_str ''  speed: '', Print_int s, Println_str ''%''],
     in1 := (if 0 < a then HIGH else LOW), in2 := (if 0 < a then LOW else HIGH),
     in3 := (if 0 < a then LOW else HIGH), in4 := (if 0 < a then HIGH else LOW),
     duty_left := speedPercentToPwm s, duty_right := speedPercentToPwm s\<rparr>"
  by (simp add: rotate_start_def Let_def block_def Serial_print_def ledcWrite_def digitalWrite_def)

subsection \<open>Every call returns, with the motors stopped\<close>

lemma driveForward_returns:
  "\<exists>h'. driveForward oor d s h = Some h' \<and> (stopped h \<or> (0 < d \<and> 0 < s) \<longrightarrow> stopped h')"
  by (auto simp: driveForward_def busy_wait_eq stopped_stopMotors Let_def)

lemma rotate_returns:
  "\<exists>h'. rotate_deg oor a s h = Some h' \<and> (stopped h \<or> (a \<noteq> 0 \<and> 0 < s) \<longrightarrow> stopped h')"
  by (auto simp: rotate_deg_def busy_wait_eq stopped_stopMotors Let_def)

lemma exec_returns:
  assumes st: "stopped h"
  shows "\<exists>h'. exec oor c h = Some h' \<and> stopped h'"
proof (cases c)
  case (DriveForward d s)
  then show ?thesis using st driveForward_returns [of oor d s h] by auto
next
  case (Rotate a s)
  then show ?thesis using st rotate_returns [of oor a s h] by auto
next
  case StopMotors
  then show ?thesis by (simp add: stopped_stopMotors)
next
  case (Delay ms)
  then show ?thesis using st by (simp add: delay_def stopped_def)
qed

lemma run_commands_returns:
  "stopped h \<Longrightarrow> \<exists>h'. run_commands oor cs h = Some h' \<and> stopped h'"
proof (induction cs arbitrary: h)
  case Nil
  then show ?case by simp
next
  case (Cons c cs)
  from exec_returns [OF Cons.prems, of oor c]
  obtain h1 where h1: "exec oor c h = Some h1" "stopped h1" by blast
  with Cons.IH [of h1] show ?case by simp
qed

lemma stopped_robotek_setup: "stopped (robotek_setup h0)"
  by (simp add: robotek_setup_def block_def stopped_stopMotors)

text \<open>
  C2: after a call of \<open>driveForward\<close>, \<open>rotate\<close> or \<open>stopMotors\<close>, whatever its
  arguments, both duties are 0 and all four direction lines are low. A call is made in a
  state \<open>h\<close> that the sketch can be in: after \<^verbatim>\<open>setup()\<close>, run from any state of
  the hardware, and any sequence of earlier calls. Every such call returns.
\<close>

theorem motors_stopped_after_every_call:
  assumes "run_commands oor cs (robotek_setup h0) = Some h"
  shows "(\<exists>h'. driveForward oor d s h = Some h' \<and> stopped h')
     \<and> (\<exists>h'. rotate_deg oor a s' h = Some h' \<and> stopped h')
     \<and> stopped (stopMotors h)"
proof -
  have "stopped h"
    using run_commands_returns [OF stopped_robotek_setup, of oor cs h0] assms by simp
  then show ?thesis
    using driveForward_returns [of oor d s h] rotate_returns [of oor a s' h]
    by (auto simp: stopped_stopMotors)
qed

lemma rotate_demo_runTimeMs: "c_round (f32_mul 90 (f32_rnd (42 / 5))) = 756"
  by code_simp

lemma power_on_simps:
  "ms_per_cm (robotek_setup power_on) = 80"
  "ms_per_degree (robotek_setup power_on) = f32_rnd (42 / 5)"
  by (simp_all add: robotek_setup_def block_def Serial_print_def stopMotors_eq power_on_def)

lemma to_unsigned_long_in_range:
  "0 \<le> r \<Longrightarrow> r < 2 ^ 32 \<Longrightarrow> uint (to_unsigned_long oor r) = r"
  by (simp add: to_unsigned_long_def uint_word_of_int)

text \<open>The calls \<^verbatim>\<open>rotate(90, 60)\<close> and \<^verbatim>\<open>delay(1000)\<close> of \<^verbatim>\<open>loop()\<close>, then \<^verbatim>\<open>driveForward(0, 50)\<close>.\<close>

theorem motors_stopped_after_every_call_witness:
  "run_commands saturating_cast [Rotate 90 60, Delay 1000] (robotek_setup power_on)
     = Some (stopMotors (delay 1760 (rotate_start 90 60 756 (robotek_setup power_on))))
   \<and> (\<exists>h'. driveForward saturating_cast 0 50
          (stopMotors (delay 1760 (rotate_start 90 60 756 (robotek_setup power_on)))) = Some h'
        \<and> stopped h')"
proof -
  have rt: "rotate_runTimeMs saturating_cast (robotek_setup power_on) 90 = 756"
    by (simp add: rotate_runTimeMs_def power_on_simps rotate_demo_runTimeMs to_unsigned_long_def)
  have run: "run_commands saturating_cast [Rotate 90 60, Delay 1000] (robotek_setup power_on)
     = Some (stopMotors (delay 1760 (rotate_start 90 60 756 (robotek_setup power_on))))"
    by (simp add: rotate_deg_def rt busy_wait_eq delay_def stopMotors_eq rotate_start_eq)
  show ?thesis
    using motors_stopped_after_every_call [OF run, of 0 50 0 0] run by simp
qed

subsection \<open>Computed run times\<close>


lemma rotate_deg_eq:
  "a \<noteq> 0 \<Longrightarrow> 0 < s \<Longrightarrow> rotate_deg oor a s h =
     map_option stopMotors (busy_wait (rotate_runTimeMs oor h a)
       (rotate_start a s (rotate_runTimeMs oor h a) h))"
  by (simp add: rotate_deg_def Let_def)




text \<open>Whatever the target does outside the range, a run time is a 32-bit number.\<close>

lemma run_time_below_2_32:
  "uint (driveForward_runTimeMs oor h d) < 2 ^ 32" "uint (rotate_runTimeMs oor h a) < 2 ^ 32"
  using uint_lt2p [of "driveForward_runTimeMs oor h d"] uint_lt2p [of "rotate_runTimeMs oor h a"]
  by simp_all





lemma rotate_runTimeMs_neg: "rotate_runTimeMs oor h (- a) = rotate_runTimeMs oor h a"
  by (simp add: rotate_runTimeMs_def)

text \<open>
  C4, amended: for every nonzero \<open>angleDeg\<close> and \<open>speedPercent > 0\<close> such that
  \<open>round(|angleDeg| * msPerDegree)\<close>, the product being that of \<^verbatim>\<open>float\<close>, lies in
  the range \<open>0 \<dots> 2\<^sup>3\<^sup>2 - 1\<close> of \<^verbatim>\<open>unsigned long\<close>, the run time \<open>rotate\<close>
  computes, and waits with, is that number; \<open>rotate(a, s)\<close> and \<open>rotate(-a, s)\<close>
  compute the same run time (for every \<open>a\<close>); with \<open>msPerDegree\<close> the \<^verbatim>\<open>float\<close>
  8.4, \<open>rotate(90, 60)\<close> and \<open>rotate(-90, 60)\<close> both compute 756 ms.
\<close>

theorem rotate_run_time:
  assumes "a \<noteq> 0" and "0 < s"
    and "0 \<le> c_round (f32_mul \<bar>a\<bar> (ms_per_degree h))"
    and "c_round (f32_mul \<bar>a\<bar> (ms_per_degree h)) < 2 ^ 32"
  shows "uint (rotate_runTimeMs oor h a) = c_round (f32_mul \<bar>a\<bar> (ms_per_degree h))
     \<and> rotate_runTimeMs oor h (- a) = rotate_runTimeMs oor h a
     \<and> rotate_deg oor a s h =
         map_option stopMotors (busy_wait (rotate_runTimeMs oor h a)
           (rotate_start a s (rotate_runTimeMs oor h a) h))
     \<and> (\<bar>a\<bar> = 90 \<and> ms_per_degree h = f32_rnd (42 / 5) \<longrightarrow> rotate_runTimeMs oor h a = 756)"
proof -
  have "uint (rotate_runTimeMs oor h a) = c_round (f32_mul \<bar>a\<bar> (ms_per_degree h))"
    using assms(3,4) by (simp add: rotate_runTimeMs_def to_unsigned_long_in_range)
  moreover have "\<bar>a\<bar> = 90 \<and> ms_per_degree h = f32_rnd (42 / 5) \<longrightarrow> rotate_runTimeMs oor h a = 756"
    by (simp add: rotate_runTimeMs_def rotate_demo_runTimeMs to_unsigned_long_def)
  ultimately show ?thesis
    using rotate_deg_eq [OF assms(1,2)] by (simp add: rotate_runTimeMs_neg)
qed

text \<open>The two calls of \<^verbatim>\<open>loop()\<close>, made after \<^verbatim>\<open>setup()\<close>; the wait ends at 760 ms.\<close>

theorem rotate_run_time_witness:
  "rotate_runTimeMs saturating_cast (robotek_setup power_on) 90 = 756
   \<and> rotate_runTimeMs saturating_cast (robotek_setup power_on) (- 90) = 756
   \<and> rotate_deg saturating_cast 90 60 (robotek_setup power_on)
       = Some (stopMotors (delay 760 (rotate_start 90 60 756 (robotek_setup power_on))))
   \<and> rotate_deg saturating_cast (- 90) 60 (robotek_setup power_on)
       = Some (stopMotors (delay 760 (rotate_start (- 90) 60 756 (robotek_setup power_on))))"
proof -
  have r: "0 \<le> c_round (f32_mul \<bar>90\<bar> (ms_per_degree (robotek_setup power_on)))"
      "c_round (f32_mul \<bar>90\<bar> (ms_per_degree (robotek_setup power_on))) < 2 ^ 32"
      "0 \<le> c_round (f32_mul \<bar>- 90\<bar> (ms_per_degree (robotek_setup power_on)))"
      "c_round (f32_mul \<bar>- 90\<bar> (ms_per_degree (robotek_setup power_on))) < 2 ^ 32"
    by (simp_all add: power_on_simps rotate_demo_runTimeMs)
  show ?thesis
    using rotate_run_time [where a = 90 and s = 60 and oor = saturating_cast
          and h = "robotek_setup power_on", OF _ _ r(1,2)]
      rotate_run_time [where a = "- 90" and s = 60 and oor = saturating_cast
          and h = "robotek_setup power_on", OF _ _ r(3,4)]
    by (simp add: power_on_simps busy_wait_eq delay_def)
qed

lemma long_turn_product: "c_round (f32_mul 1000000000 (f32_rnd (42 / 5))) = 8399999488"
  by code_simp

text \<open>
  C4, as stated, for every nonzero \<open>angleDeg\<close>: at \<open>angleDeg = 10\<^sup>9\<close> the rounded
  product is 8399999488 ms, beyond \<open>2\<^sup>3\<^sup>2 - 1\<close>; the run time is another number (on a
  saturating target, \<open>2\<^sup>3\<^sup>2 - 1\<close>).
\<close>

theorem rotate_run_time_overflows:
  "(1000000000::rat) \<noteq> 0 \<and> (0::int) < 60
   \<and> c_round (f32_mul \<bar>1000000000\<bar> (ms_per_degree (robotek_setup power_on))) = 8399999488
   \<and> uint (rotate_runTimeMs saturating_cast (robotek_setup power_on) 1000000000) = 4294967295"
  by (simp add: power_on_simps long_turn_product rotate_runTimeMs_def to_unsigned_long_def
      saturating_cast_def)

subsection \<open>Directions\<close>



subsection \<open>Calls that do nothing\<close>

text \<open>
  C6: \<open>driveForward\<close> with \<open>distanceCm \<le> 0\<close> or \<open>speedPercent \<le> 0\<close>, and
  \<open>rotate\<close> with \<open>angleDeg = 0\<close> or \<open>speedPercent \<le> 0\<close>, return at once and leave
  the state as it is: no direction line and no duty is written, nothing is printed, no
  time passes, and the call returns normally.
\<close>

theorem no_op_calls:
  "(d \<le> 0 \<or> s \<le> 0 \<longrightarrow> driveForward oor d s h = Some h)
   \<and> (a = 0 \<or> s' \<le> 0 \<longrightarrow> rotate_deg oor a s' h = Some h)"
  by (simp add: driveForward_def rotate_deg_def)

text \<open>
  \<^verbatim>\<open>driveForward(0, 50)\<close>, \<^verbatim>\<open>driveForward(-5, 50)\<close>, \<^verbatim>\<open>driveForward(30, 0)\<close>,
  \<^verbatim>\<open>rotate(0, 60)\<close> and \<^verbatim>\<open>rotate(45, 0)\<close>.
\<close>

theorem no_op_calls_witness:
  "driveForward saturating_cast 0 50 power_on = Some power_on
   \<and> driveForward saturating_cast (- 5) 50 power_on = Some power_on
   \<and> driveForward saturating_cast 30 0 power_on = Some power_on
   \<and> rotate_deg saturating_cast 0 60 power_on = Some power_on
   \<and> rotate_deg saturating_cast 45 0 power_on = Some power_on"
  using no_op_calls [of 0 50 saturating_cast power_on 0 60]
    no_op_calls [of "- 5" 50 saturating_cast power_on 45 0]
    no_op_calls [of 30 0 saturating_cast power_on 45 0]
  by simp

subsection \<open>Speeds above 100 percent\<close>



section \<open>Properties of the ranging utility\<close>

subsection \<open>Rounding to \<^verbatim>\<open>float\<close> does not fall below a power of two\<close>

lemma ilog2_bounds: "0 < x \<Longrightarrow> 2 powi (ilog2 x) \<le> x \<and> x < 2 powi (ilog2 x + 1)"
proof (induction x rule: ilog2.induct)
  case (1 x)
  show ?case
  proof (cases "2 \<le> x")
    case True
    then have e: "ilog2 x = ilog2 (x / 2) + 1" using 1(3) by (subst ilog2.simps) simp
    have "2 powi ilog2 (x / 2) \<le> x / 2 \<and> x / 2 < 2 powi (ilog2 (x / 2) + 1)"
      using 1(1) True 1(3) by simp
    then show ?thesis unfolding e by (simp add: power_int_add)
  next
    case False
    note nge = this
    show ?thesis
    proof (cases "x < 1")
      case True
      then have e: "ilog2 x = ilog2 (x * 2) - 1" using 1(3) nge by (subst ilog2.simps) simp
      have "2 powi ilog2 (x * 2) \<le> x * 2 \<and> x * 2 < 2 powi (ilog2 (x * 2) + 1)"
        using 1(2) True nge 1(3) by simp
      then show ?thesis unfolding e by (simp add: power_int_add power_int_diff)
    next
      case False
      then have e: "ilog2 x = 0" using 1(3) nge by (subst ilog2.simps) simp
      show ?thesis unfolding e using False nge by simp
    qed
  qed
qed

lemma rne_ge_floor: "\<lfloor>x\<rfloor> \<le> rne x"
  by (simp add: rne_def Let_def)

lemma f32_rnd_lower:
  assumes "2 powi k \<le> x" and "- 126 \<le> k"
  shows "2 powi k \<le> f32_rnd x"
proof -
  have kpos: "(0::rat) < 2 powi k" by simp
  then have xpos: "0 < x" using assms(1) by linarith
  define e where "e = ilog2 x"
  have b: "2 powi e \<le> x" "x < 2 powi (e + 1)"
    using ilog2_bounds [OF xpos] by (simp_all add: e_def)
  have "(2::rat) powi k < 2 powi (e + 1)" using assms(1) b(2) by linarith
  then have "k < e + 1"
    using power_int_increasing [of "e + 1" k "2::rat"] by (cases "k < e + 1") simp_all
  then have ke: "k \<le> e" by simp
  then have emax: "max e (- 126) = e" using assms(2) by simp
  define u :: rat where "u = 2 powi (e - 23)"
  have upos: "0 < u" by (simp add: u_def)
  have "(2::rat) powi (23 + (e - 23)) = 2 powi 23 * 2 powi (e - 23)"
    by (rule power_int_add) simp
  then have eu: "2 powi e = 8388608 * u"
    by (simp add: u_def)
  have "8388608 \<le> x / u" using b(1) upos by (simp add: eu pos_le_divide_eq)
  then have "8388608 \<le> \<lfloor>x / u\<rfloor>" by (simp add: le_floor_iff)
  then have "8388608 \<le> rne (x / u)" using rne_ge_floor [of "x / u"] by linarith
  then have "8388608 * u \<le> of_int (rne (x / u)) * u"
    using upos by simp
  moreover have "f32_rnd x = of_int (rne (x / u)) * u"
    using xpos by (simp add: f32_rnd_def Let_def e_def [symmetric] emax u_def)
  moreover have "(2::rat) powi k \<le> 2 powi e"
    using ke by (simp add: power_int_increasing)
  ultimately show ?thesis using eu by simp
qed


lemma echo_lower: "2 powi (- 5) \<le> f32_rnd (343 / 10000)"
  by (rule f32_rnd_lower) (simp_all add: power_int_minus)

lemma distance_positive:
  assumes "0 < n"
  shows "0 < f32_div (f32_mul (f32_of_long n) (f32_rnd (343 / 10000))) 2"
proof -
  have "2 powi 0 \<le> f32_of_long n"
    unfolding f32_of_long_def using assms by (intro f32_rnd_lower) simp_all
  then have one: "1 \<le> f32_of_long n" by simp
  have c: "1 / 32 \<le> f32_rnd (343 / 10000)"
    using echo_lower by (simp add: power_int_minus)
  have "1 * (1 / 32) \<le> f32_of_long n * f32_rnd (343 / 10000)"
    using one c by (intro mult_mono) simp_all
  then have "2 powi (- 5) \<le> f32_of_long n * f32_rnd (343 / 10000)"
    by (simp add: power_int_minus)
  then have "2 powi (- 5) \<le> f32_mul (f32_of_long n) (f32_rnd (343 / 10000))"
    unfolding f32_mul_def by (intro f32_rnd_lower) simp_all
  then have "2 powi (- 6) \<le> f32_mul (f32_of_long n) (f32_rnd (343 / 10000)) / 2"
    by (simp add: power_int_minus)
  then have "2 powi (- 6) \<le> f32_div (f32_mul (f32_of_long n) (f32_rnd (343 / 10000))) 2"
    unfolding f32_div_def by (intro f32_rnd_lower) simp_all
  then show ?thesis by (simp add: power_int_minus)
qed



subsection \<open>The value \<open>measureDistanceCm\<close> returns\<close>

lemma fst_measureDistanceCm:
  "fst (measureDistanceCm pulseIn h) =
     (if sint (pulseIn ECHO_PIN HIGH 30000) = 0 then - 1
      else f32_div (f32_mul (f32_of_long (sint (pulseIn ECHO_PIN HIGH 30000))) (f32_rnd (343 / 10000))) 2)"
  by (simp add: measureDistanceCm_def Let_def)

lemma reported_measureDistanceCm: "reported (snd (measureDistanceCm pulseIn h)) = reported h"
  by (simp add: measureDistanceCm_def Let_def)

lemma sint_eq_0_iff: "sint (w :: 32 word) = 0 \<longleftrightarrow> w = 0"
  by (metis signed_0 signed_eq_0_iff sint_0)

text \<open>
  C8: \<open>measureDistanceCm\<close> returns \<open>-1.0\<close> exactly when \<^verbatim>\<open>pulseIn\<close>, called with
  the timeout of 30000 microseconds (30 ms), reports that no echo pulse was received (it
  returns 0); otherwise the value returned is the distance measured,
  \<open>(duration * 0.0343f) / 2.0f\<close> in \<^verbatim>\<open>float\<close> arithmetic. The pulse length is one
  that fits the \<^verbatim>\<open>long\<close> it is stored in, as every length within the timeout does.
\<close>

theorem measureDistanceCm_sentinel:
  assumes "0 \<le> sint (pulseIn ECHO_PIN HIGH 30000)"
  shows "(fst (measureDistanceCm pulseIn h) = - 1 \<longleftrightarrow> pulseIn ECHO_PIN HIGH 30000 = 0)
     \<and> (pulseIn ECHO_PIN HIGH 30000 \<noteq> 0 \<longrightarrow>
          fst (measureDistanceCm pulseIn h) =
            f32_div (f32_mul (f32_of_long (sint (pulseIn ECHO_PIN HIGH 30000)))
                       (f32_rnd (343 / 10000))) 2)"
proof (cases "pulseIn ECHO_PIN HIGH 30000 = 0")
  case True
  then show ?thesis by (simp add: fst_measureDistanceCm)
next
  case False
  then have "0 < sint (pulseIn ECHO_PIN HIGH 30000)"
    using assms by (simp add: sint_eq_0_iff order_less_le)
  then have "0 < f32_div (f32_mul (f32_of_long (sint (pulseIn ECHO_PIN HIGH 30000)))
      (f32_rnd (343 / 10000))) 2"
    by (rule distance_positive)
  then show ?thesis using False by (simp add: fst_measureDistanceCm sint_eq_0_iff)
qed

lemma echo_1000: "f32_div (f32_mul (f32_of_long 1000) (f32_rnd (343 / 10000))) 2 = 8991539 / 524288"
  by code_simp

text \<open>No echo, an echo longer than the timeout, and an echo of 1000 microseconds (17.15 cm).\<close>

theorem measureDistanceCm_sentinel_witness:
  "fst (measureDistanceCm (echo_of 0) sonar_idle) = - 1
   \<and> fst (measureDistanceCm (echo_of 40000) sonar_idle) = - 1
   \<and> fst (measureDistanceCm (echo_of 1000) sonar_idle) = 8991539 / 524288"
proof -
  have e: "echo_of 0 ECHO_PIN HIGH 30000 = 0" "echo_of 40000 ECHO_PIN HIGH 30000 = 0"
    "echo_of 1000 ECHO_PIN HIGH 30000 = 1000"
    by (simp_all add: echo_of_def)
  show ?thesis
    using measureDistanceCm_sentinel [of "echo_of 0" sonar_idle]
      measureDistanceCm_sentinel [of "echo_of 40000" sonar_idle]
      measureDistanceCm_sentinel [of "echo_of 1000" sonar_idle]
    by (simp add: e echo_1000)
qed

text \<open>
  C9: for every pulse length \<open>duration\<close> (a \<^verbatim>\<open>long\<close>, not negative), the value
  returned is \<open>-1.0\<close> when \<open>duration\<close> is 0 and strictly positive when it is not, so
  that the test \<^verbatim>\<open>d < 0\<close> of \<^verbatim>\<open>loop()\<close> holds exactly in the timeout case:
  \<^verbatim>\<open>loop()\<close> prints \<^verbatim>\<open>No echo detected.\<close> then and only then.
\<close>

theorem timeout_check_exact:
  assumes "0 \<le> sint (pulseIn ECHO_PIN HIGH 30000)"
  shows "(sint (pulseIn ECHO_PIN HIGH 30000) = 0 \<longrightarrow> fst (measureDistanceCm pulseIn h) = - 1)
     \<and> (0 < sint (pulseIn ECHO_PIN HIGH 30000) \<longrightarrow> 0 < fst (measureDistanceCm pulseIn h))
     \<and> (fst (measureDistanceCm pulseIn h) < 0 \<longleftrightarrow> sint (pulseIn ECHO_PIN HIGH 30000) = 0)
     \<and> (reported (sonar_loop pulseIn h) = reported h @ [Println_str ''No echo detected.'']
          \<longleftrightarrow> sint (pulseIn ECHO_PIN HIGH 30000) = 0)"
proof (cases "sint (pulseIn ECHO_PIN HIGH 30000) = 0")
  case True
  then show ?thesis
    by (simp add: fst_measureDistanceCm sonar_loop_def Let_def split_beta reported_measureDistanceCm)
next
  case False
  then have "0 < sint (pulseIn ECHO_PIN HIGH 30000)" using assms by simp
  then have "0 < f32_div (f32_mul (f32_of_long (sint (pulseIn ECHO_PIN HIGH 30000)))
      (f32_rnd (343 / 10000))) 2"
    by (rule distance_positive)
  then show ?thesis using False
    by (simp add: fst_measureDistanceCm sonar_loop_def Let_def split_beta reported_measureDistanceCm)
qed

text \<open>One \<^verbatim>\<open>loop()\<close> with no echo, and one with an echo of 1000 microseconds.\<close>

theorem timeout_check_exact_witness:
  "fst (measureDistanceCm (echo_of 0) sonar_idle) = - 1
   \<and> reported (sonar_loop (echo_of 0) sonar_idle) = [Println_str ''No echo detected.'']
   \<and> 0 < fst (measureDistanceCm (echo_of 1000) sonar_idle)
   \<and> reported (sonar_loop (echo_of 1000) sonar_idle)
       = [Print_str ''Distance: '', Print_float (8991539 / 524288), Println_str '' cm'']"
proof -
  have e: "echo_of 0 ECHO_PIN HIGH 30000 = 0" "echo_of 1000 ECHO_PIN HIGH 30000 = 1000"
    by (simp_all add: echo_of_def)
  show ?thesis
    using timeout_check_exact [of "echo_of 0" sonar_idle]
      timeout_check_exact [of "echo_of 1000" sonar_idle]
    by (simp add: e echo_1000 fst_measureDistanceCm sonar_loop_def Let_def split_beta
        reported_measureDistanceCm sonar_idle_def)
qed

end
